theory Spec2Isabelle
  imports Main "HOL-Library.AList" "HOL-Library.Sublist" "HOL-Library.Word"
begin

section \<open>Agent-level credential configuration\<close>

text \<open>
  A model of \<^verbatim>\<open>core/framework/credentials/agent_config.py\<close>: the class
  \<^verbatim>\<open>AgentCredentialConfig\<close> with its loader, its writer and its five dictionary
  methods. Python objects that the program shares or mutates (the \<^verbatim>\<open>mappings\<close>
  dictionary of an instance) live in a store of addresses; the file system and the
  logger are part of the same state, so that what an operation leaves untouched can be
  stated.
\<close>

subsection \<open>Python values\<close>

text \<open>
  The values \<^verbatim>\<open>json.loads\<close> builds: \<^verbatim>\<open>None\<close>, booleans, unbounded integers,
  floats (their binary64 bit pattern), strings, lists, and dictionaries with string keys
  in insertion order. An association list stands for a dictionary when its keys are
  distinct.
\<close>

datatype pyval =
    PNone
  | PBool bool
  | PInt int
  | PFloat "64 word"
  | PStr string
  | PList "pyval list"
  | PDict "(string \<times> pyval) list"

text \<open>
  A Python string is a sequence of code points below \<open>0x110000\<close>, unpaired surrogates
  included. \<open>PStr\<close> holds the bytes of its UTF-8 encoding, a surrogate in the three-byte
  form that the error handler \<^verbatim>\<open>surrogatepass\<close> writes; ASCII text is its own
  encoding, so the string literals of this theory are the Python strings they show.
  \<open>utf8_encode\<close> gives the bytes of a sequence of code points, \<open>utf8_decode\<close> reads
  the code points back, and \<open>is_pystr\<close> holds of the byte sequences that stand for a
  string.
\<close>

definition utf8_char :: "nat \<Rightarrow> string" where
  "utf8_char c =
     (if c < 0x80 then [char_of c]
      else if c < 0x800 then [char_of (0xC0 + c div 64), char_of (0x80 + c mod 64)]
      else if c < 0x10000 then
        [char_of (0xE0 + c div 4096), char_of (0x80 + c div 64 mod 64), char_of (0x80 + c mod 64)]
      else
        [char_of (0xF0 + c div 262144), char_of (0x80 + c div 4096 mod 64),
         char_of (0x80 + c div 64 mod 64), char_of (0x80 + c mod 64)])"

definition utf8_encode :: "nat list \<Rightarrow> string" where
  "utf8_encode cs = concat (map utf8_char cs)"

definition utf8_len :: "nat \<Rightarrow> nat" where
  "utf8_len b = (if b < 0xC0 then 1 else if b < 0xE0 then 2 else if b < 0xF0 then 3 else 4)"

fun utf8_value :: "nat list \<Rightarrow> nat" where
  "utf8_value [a] = a"
| "utf8_value [a, b] = (a - 0xC0) * 64 + (b - 0x80)"
| "utf8_value [a, b, c] = (a - 0xE0) * 4096 + (b - 0x80) * 64 + (c - 0x80)"
| "utf8_value [a, b, c, d] = (a - 0xF0) * 262144 + (b - 0x80) * 4096 + (c - 0x80) * 64 + (d - 0x80)"
| "utf8_value _ = 0"

function utf8_decode :: "string \<Rightarrow> nat list" where
  "utf8_decode [] = []"
| "utf8_decode (b # bs) =
     utf8_value (map of_char (b # take (utf8_len (of_char b) - 1) bs))
       # utf8_decode (drop (utf8_len (of_char b) - 1) bs)"
  by pat_completeness auto
termination
  by (relation "measure length") auto

definition is_pystr :: "string \<Rightarrow> bool" where
  "is_pystr s \<longleftrightarrow>
     list_all (\<lambda>c. c < 0x110000) (utf8_decode s) \<and> utf8_encode (utf8_decode s) = s"

text \<open>
  The exceptions that can leave the code. \<open>NonStringKey\<close> is not a Python exception:
  it marks a call of \<^verbatim>\<open>dict(...)\<close> on a list of pairs that would build a
  dictionary with a key that is not a string, which \<open>PDict\<close> cannot hold. Nothing is
  stated about such a call.
\<close>

datatype py_exn =
    OSError
  | JSONDecodeError
  | UnicodeDecodeError
  | AttributeError
  | TypeError
  | ValueError
  | KeyError
  | NonStringKey

text \<open>\<^verbatim>\<open>x.get(k, dflt)\<close>: only a dictionary has the method.\<close>

fun py_get :: "pyval \<Rightarrow> string \<Rightarrow> pyval \<Rightarrow> py_exn + pyval" where
  "py_get (PDict d) k dflt = Inr (case map_of d k of Some v \<Rightarrow> v | None \<Rightarrow> dflt)"
| "py_get _ k dflt = Inl AttributeError"

text \<open>
  \<^verbatim>\<open>k in x\<close> for a string \<open>k\<close>: key membership in a dictionary, element
  membership in a list, substring test in a string, \<^verbatim>\<open>TypeError\<close> otherwise.
\<close>

fun py_contains :: "string \<Rightarrow> pyval \<Rightarrow> py_exn + bool" where
  "py_contains k (PDict d) = Inr (k \<in> fst ` set d)"
| "py_contains k (PList xs) = Inr (PStr k \<in> set xs)"
| "py_contains k (PStr s) = Inr (sublist k s)"
| "py_contains k _ = Inl TypeError"

text \<open>
  \<^verbatim>\<open>x[k] = v\<close> for a string \<open>k\<close>: a dictionary overwrites the entry in place or
  appends a new one; every other value raises \<^verbatim>\<open>TypeError\<close>.
\<close>

fun py_setitem :: "pyval \<Rightarrow> string \<Rightarrow> pyval \<Rightarrow> py_exn + pyval" where
  "py_setitem (PDict d) k v = Inr (PDict (AList.update k v d))"
| "py_setitem _ k v = Inl TypeError"

text \<open>\<^verbatim>\<open>del x[k]\<close> for a string \<open>k\<close>.\<close>

fun py_delitem :: "pyval \<Rightarrow> string \<Rightarrow> py_exn + pyval" where
  "py_delitem (PDict d) k =
     (if k \<in> fst ` set d then Inr (PDict (AList.delete k d)) else Inl KeyError)"
| "py_delitem _ k = Inl TypeError"

text \<open>
  \<^verbatim>\<open>dict(x)\<close>: a shallow copy of a dictionary. Of another iterable, every element
  must itself iterate to exactly two items, key and value (a two-character string, a
  two-element list, a dictionary with two keys), and the key must be hashable.
\<close>

fun pair_of_item :: "pyval \<Rightarrow> py_exn + (string \<times> pyval)" where
  "pair_of_item (PStr s) =
     (case utf8_decode s of
        [a, b] \<Rightarrow> Inr (utf8_char a, PStr (utf8_char b))
      | _ \<Rightarrow> Inl ValueError)"
| "pair_of_item (PList xs) =
     (case xs of
        [k, v] \<Rightarrow>
          (case k of
             PStr s \<Rightarrow> Inr (s, v)
           | PList _ \<Rightarrow> Inl TypeError
           | PDict _ \<Rightarrow> Inl TypeError
           | _ \<Rightarrow> Inl NonStringKey)
      | _ \<Rightarrow> Inl ValueError)"
| "pair_of_item (PDict d) =
     (case d of [(k1, _), (k2, _)] \<Rightarrow> Inr (k1, PStr k2) | _ \<Rightarrow> Inl ValueError)"
| "pair_of_item _ = Inl TypeError"

fun dict_from_items :: "(string \<times> pyval) list \<Rightarrow> pyval list \<Rightarrow> py_exn + pyval" where
  "dict_from_items acc [] = Inr (PDict acc)"
| "dict_from_items acc (x # xs) =
     (case pair_of_item x of
        Inl e \<Rightarrow> Inl e
      | Inr (k, v) \<Rightarrow> dict_from_items (AList.update k v acc) xs)"

fun py_dict :: "pyval \<Rightarrow> py_exn + pyval" where
  "py_dict (PDict d) = Inr (PDict d)"
| "py_dict (PList xs) = dict_from_items [] xs"
| "py_dict (PStr s) = (if s = [] then Inr (PDict []) else Inl ValueError)"
| "py_dict _ = Inl TypeError"

fun is_dict :: "pyval \<Rightarrow> bool" where
  "is_dict (PDict d) = True"
| "is_dict _ = False"

text \<open>The declared type of the field \<^verbatim>\<open>mappings\<close>: \<^verbatim>\<open>dict[str, str]\<close>.\<close>

fun is_str :: "pyval \<Rightarrow> bool" where
  "is_str (PStr s) = True"
| "is_str _ = False"

fun is_str_dict :: "pyval \<Rightarrow> bool" where
  "is_str_dict (PDict d) = list_all (\<lambda>kv. is_str (snd kv)) d"
| "is_str_dict _ = False"

subsection \<open>The state: object store, file system, logger\<close>

text \<open>
  A \<^verbatim>\<open>pathlib.Path\<close> is the list of its parts. A path of the file system is absent
  or holds a node: a text file, a file whose bytes do not decode as text, something
  that exists and cannot be read (a directory, a file without read permission), or an
  entry that cannot even be examined (it lies in a directory without search permission).
  \<open>stat_faults\<close> says for which absent paths \<^verbatim>\<open>stat\<close> fails with an error other
  than \<^verbatim>\<open>ENOENT\<close>, \<^verbatim>\<open>ENOTDIR\<close>, \<^verbatim>\<open>EBADF\<close> and \<^verbatim>\<open>ELOOP\<close>: a directory on the
  way cannot be searched, or a name is longer than the system allows.
  \<open>write_faults\<close> says where writing fails: at \<^verbatim>\<open>open\<close>, before the file is touched,
  or after \<open>n\<close> characters were written to the truncated file.
\<close>

type_synonym path = "string list"

datatype node = Regular string | Undecodable | Unreadable | Inaccessible

datatype write_fault = OpenFails | WriteFails nat

datatype level = INFO | WARNING | ERROR

datatype message = FailedToLoad py_exn | SavedTo path | FailedToSave py_exn

record world =
  heap :: "nat \<Rightarrow> pyval"
  next_addr :: nat
  files :: "path \<rightharpoonup> node"
  stat_faults :: "path \<Rightarrow> bool"
  write_faults :: "path \<rightharpoonup> write_fault"
  logged :: "(level \<times> message) list"

definition alloc :: "world \<Rightarrow> pyval \<Rightarrow> nat \<times> world" where
  "alloc w v =
     (next_addr w, w\<lparr>heap := (heap w)(next_addr w := v), next_addr := Suc (next_addr w)\<rparr>)"

definition log_msg :: "world \<Rightarrow> level \<Rightarrow> message \<Rightarrow> world" where
  "log_msg w lv m = w\<lparr>logged := logged w @ [(lv, m)]\<rparr>"

definition joinpath :: "path \<Rightarrow> string \<Rightarrow> path" where
  "joinpath p name = p @ [name]"

text \<open>
  \<^verbatim>\<open>Path.exists()\<close> calls \<^verbatim>\<open>stat\<close>. It answers false for the four error numbers
  above and raises every other \<^verbatim>\<open>OSError\<close>.
\<close>

definition path_exists :: "world \<Rightarrow> path \<Rightarrow> py_exn + bool" where
  "path_exists w p =
     (case files w p of
        None \<Rightarrow> if stat_faults w p then Inl OSError else Inr False
      | Some Inaccessible \<Rightarrow> Inl OSError
      | Some n \<Rightarrow> Inr True)"

definition read_text :: "world \<Rightarrow> path \<Rightarrow> py_exn + string" where
  "read_text w p =
     (case files w p of
        None \<Rightarrow> Inl OSError
      | Some Unreadable \<Rightarrow> Inl OSError
      | Some Inaccessible \<Rightarrow> Inl OSError
      | Some Undecodable \<Rightarrow> Inl UnicodeDecodeError
      | Some (Regular s) \<Rightarrow> Inr s)"

definition write_text :: "world \<Rightarrow> path \<Rightarrow> string \<Rightarrow> (py_exn + unit) \<times> world" where
  "write_text w p s =
     (case write_faults w p of
        None \<Rightarrow> (Inr (), w\<lparr>files := (files w)(p \<mapsto> Regular s)\<rparr>)
      | Some OpenFails \<Rightarrow> (Inl OSError, w)
      | Some (WriteFails n) \<Rightarrow> (Inl OSError, w\<lparr>files := (files w)(p \<mapsto> Regular (take n s))\<rparr>))"

subsection \<open>The class\<close>

text \<open>
  An instance holds its directory and a reference to its dictionary. The two functions
  of the \<^verbatim>\<open>json\<close> module are parameters: \<open>json_loads\<close> parses a text (\<open>None\<close> is
  \<^verbatim>\<open>JSONDecodeError\<close>) and \<open>json_dumps\<close> is \<^verbatim>\<open>json.dumps(\<cdot>, indent=2)\<close>.
  What is proved for every pair of functions holds for the module's own; the next
  subsection gives these on the documents that \<^verbatim>\<open>save\<close> writes for a table of
  strings.
\<close>

definition CONFIG_FILENAME :: string where
  "CONFIG_FILENAME = ''credentials.json''"

record AgentCredentialConfig =
  agent_path :: path
  mappings :: nat

text \<open>\<^verbatim>\<open>cls(agent_path=agent_path, mappings=mappings)\<close>\<close>

definition new_config ::
  "world \<Rightarrow> path \<Rightarrow> pyval \<Rightarrow> (py_exn + AgentCredentialConfig) \<times> world" where
  "new_config w p m =
     (case alloc w m of (a, w') \<Rightarrow> (Inr \<lparr>agent_path = p, mappings = a\<rparr>, w'))"

text \<open>The body of the \<^verbatim>\<open>try\<close> block of \<^verbatim>\<open>load\<close>.\<close>

definition load_try :: "(string \<Rightarrow> pyval option) \<Rightarrow> world \<Rightarrow> path \<Rightarrow> py_exn + pyval" where
  "load_try json_loads w config_path =
     (case read_text w config_path of
        Inl e \<Rightarrow> Inl e
      | Inr text \<Rightarrow>
          (case json_loads text of
             None \<Rightarrow> Inl JSONDecodeError
           | Some data \<Rightarrow> py_get data ''mappings'' (PDict [])))"

definition load ::
  "(string \<Rightarrow> pyval option) \<Rightarrow> world \<Rightarrow> path \<Rightarrow> (py_exn + AgentCredentialConfig) \<times> world"
where
  "load json_loads w p =
     (let config_path = joinpath p CONFIG_FILENAME in
      case path_exists w config_path of
        Inl e \<Rightarrow> (Inl e, w)
      | Inr True \<Rightarrow>
          (case load_try json_loads w config_path of
             Inr m \<Rightarrow> new_config w p m
           | Inl e \<Rightarrow>
               if e = JSONDecodeError \<or> e = OSError
               then new_config (log_msg w WARNING (FailedToLoad e)) p (PDict [])
               else (Inl e, w))
      | Inr False \<Rightarrow> new_config w p (PDict []))"

definition save ::
  "(pyval \<Rightarrow> string) \<Rightarrow> world \<Rightarrow> AgentCredentialConfig \<Rightarrow> (py_exn + unit) \<times> world"
where
  "save json_dumps w self =
     (let config_path = joinpath (agent_path self) CONFIG_FILENAME;
          data = PDict [(''mappings'', heap w (mappings self))]
      in case write_text w config_path (json_dumps data) of
           (Inr u, w') \<Rightarrow> (Inr (), log_msg w' INFO (SavedTo config_path))
         | (Inl e, w') \<Rightarrow>
             if e = OSError then (Inl e, log_msg w' ERROR (FailedToSave e)) else (Inl e, w'))"

definition get_integration_id ::
  "world \<Rightarrow> AgentCredentialConfig \<Rightarrow> string \<Rightarrow> (py_exn + pyval) \<times> world" where
  "get_integration_id w self provider = (py_get (heap w (mappings self)) provider PNone, w)"

definition set_integration_id ::
  "world \<Rightarrow> AgentCredentialConfig \<Rightarrow> string \<Rightarrow> string \<Rightarrow> (py_exn + unit) \<times> world" where
  "set_integration_id w self provider integration_id =
     (case py_setitem (heap w (mappings self)) provider (PStr integration_id) of
        Inl e \<Rightarrow> (Inl e, w)
      | Inr d \<Rightarrow> (Inr (), w\<lparr>heap := (heap w)(mappings self := d)\<rparr>))"

definition remove_integration ::
  "world \<Rightarrow> AgentCredentialConfig \<Rightarrow> string \<Rightarrow> (py_exn + bool) \<times> world" where
  "remove_integration w self provider =
     (case py_contains provider (heap w (mappings self)) of
        Inl e \<Rightarrow> (Inl e, w)
      | Inr True \<Rightarrow>
          (case py_delitem (heap w (mappings self)) provider of
             Inl e \<Rightarrow> (Inl e, w)
           | Inr d \<Rightarrow> (Inr True, w\<lparr>heap := (heap w)(mappings self := d)\<rparr>))
      | Inr False \<Rightarrow> (Inr False, w))"

text \<open>\<^verbatim>\<open>dict(self.mappings)\<close> is a new object: the result is its address.\<close>

definition list_mappings ::
  "world \<Rightarrow> AgentCredentialConfig \<Rightarrow> (py_exn + nat) \<times> world" where
  "list_mappings w self =
     (case py_dict (heap w (mappings self)) of
        Inl e \<Rightarrow> (Inl e, w)
      | Inr d \<Rightarrow> (case alloc w d of (a, w') \<Rightarrow> (Inr a, w')))"

definition has_mapping ::
  "world \<Rightarrow> AgentCredentialConfig \<Rightarrow> string \<Rightarrow> (py_exn + bool) \<times> world" where
  "has_mapping w self provider = (py_contains provider (heap w (mappings self)), w)"

subsection \<open>The \<^verbatim>\<open>json\<close> module on dictionaries and strings\<close>

text \<open>
  \<^verbatim>\<open>json.dumps(\<cdot>, indent=2)\<close> and \<^verbatim>\<open>json.loads\<close> of the standard library
  (\<^verbatim>\<open>json/encoder.py\<close>, \<^verbatim>\<open>json/decoder.py\<close>), for the values built from
  dictionaries and strings only: a table of strings under the key \<open>mappings\<close> is such a
  value. Other values are outside this fragment: \<open>dumps_at\<close> prints nothing for them and
  \<open>loads_value\<close> rejects their texts, and nothing below is stated about them.

  The printer keeps the default \<^verbatim>\<open>ensure_ascii=True\<close>. \<open>escape_cp\<close> is the
  replacement function of \<^verbatim>\<open>py_encode_basestring_ascii\<close>: the two-character escapes,
  a printable ASCII character as itself, for every other code point below \<open>0x10000\<close>
  (a surrogate is one of them) a backslash, the letter \<open>u\<close> and four lower-case
  hexadecimal digits, and for a code point from \<open>0x10000\<close> on the two such escapes of
  its surrogate pair. With an indent the item
  separator is a comma, followed by a new line and the indentation, and the key separator
  is a colon and a space; the empty dictionary is \<^verbatim>\<open>{}\<close>.
\<close>

definition hex_digit :: "nat \<Rightarrow> char" where
  "hex_digit d = ''0123456789abcdef'' ! d"

definition hex4 :: "nat \<Rightarrow> string" where
  "hex4 n = [hex_digit (n div 4096 mod 16), hex_digit (n div 256 mod 16),
             hex_digit (n div 16 mod 16), hex_digit (n mod 16)]"

definition escape_cp :: "nat \<Rightarrow> string" where
  "escape_cp c =
     (if c = 0x5C then [CHR 0x5C, CHR 0x5C]
      else if c = 0x22 then [CHR 0x5C, CHR 0x22]
      else if c = 0x08 then [CHR 0x5C, CHR ''b'']
      else if c = 0x0C then [CHR 0x5C, CHR ''f'']
      else if c = 0x0A then [CHR 0x5C, CHR ''n'']
      else if c = 0x0D then [CHR 0x5C, CHR ''r'']
      else if c = 0x09 then [CHR 0x5C, CHR ''t'']
      else if 0x20 \<le> c \<and> c \<le> 0x7E then [char_of c]
      else if c < 0x10000 then CHR 0x5C # CHR ''u'' # hex4 c
      else CHR 0x5C # CHR ''u'' # hex4 (0xD800 + (c - 0x10000) div 1024 mod 1024)
             @ CHR 0x5C # CHR ''u'' # hex4 (0xDC00 + (c - 0x10000) mod 1024))"

definition encode_basestring_ascii :: "string \<Rightarrow> string" where
  "encode_basestring_ascii s = CHR 0x22 # concat (map escape_cp (utf8_decode s)) @ [CHR 0x22]"

definition newline_indent :: "nat \<Rightarrow> string" where
  "newline_indent level = CHR 0x0A # concat (replicate level ''  '')"

fun dumps_at :: "nat \<Rightarrow> pyval \<Rightarrow> string"
  and dumps_members :: "nat \<Rightarrow> (string \<times> pyval) list \<Rightarrow> string" where
  "dumps_at level (PStr s) = encode_basestring_ascii s"
| "dumps_at level (PDict []) = ''{}''"
| "dumps_at level (PDict (kv # kvs)) =
     ''{'' @ newline_indent (Suc level) @ dumps_members (Suc level) (kv # kvs)
       @ newline_indent level @ ''}''"
| "dumps_at level _ = []"
| "dumps_members level [] = []"
| "dumps_members level ((k, v) # kvs) =
     encode_basestring_ascii k @ '': '' @ dumps_at level v
       @ (if kvs = [] then [] else '','' @ newline_indent level @ dumps_members level kvs)"
















subsection \<open>Sample data\<close>

text \<open>
  An agent directory, and an instance whose dictionary \<open>{google: g-id}\<close> sits at
  address 0 of an otherwise empty state. \<open>sample_loads\<close> and \<open>sample_dumps\<close> agree
  with the \<^verbatim>\<open>json\<close> module on four documents: the array \<open>[]\<close>, an object whose
  \<open>mappings\<close> entry is the number 5, an object with the single key \<open>other\<close>, and
  the text that \<^verbatim>\<open>json.dumps(\<cdot>, indent=2)\<close> prints for the sample instance.
  \<open>dq s\<close> is \<open>s\<close> between double quotes.

  \<open>surrogate_world\<close> is the same state with another table: the provider \<open>google\<close>
  is bound to the two-character string \<^verbatim>\<open>chr(0xD83D) + chr(0xDE00)\<close>, the bytes
  \<open>lone_pair\<close>. \<open>joined_pair\<close> is the one-character string \<^verbatim>\<open>chr(0x1F600)\<close>,
  \<open>surrogate_text\<close> the text that \<^verbatim>\<open>json.dumps(\<cdot>, indent=2)\<close> prints for the
  instance, \<open>surrogate_saved\<close> the state after \<^verbatim>\<open>save\<close> and \<open>surrogate_loaded\<close>
  the state after \<^verbatim>\<open>load\<close> of the saved directory.
\<close>

definition dq :: "string \<Rightarrow> string" where
  "dq s = CHR 0x22 # s @ [CHR 0x22]"

definition sample_path :: path where
  "sample_path = [''exports'', ''my-agent'']"

definition sample_file :: path where
  "sample_file = [''exports'', ''my-agent'', ''credentials.json'']"

definition sample_table :: pyval where
  "sample_table = PDict [(''google'', PStr ''g-id'')]"

definition array_text :: string where
  "array_text = ''[]''"

definition number_text :: string where
  "number_text = ''{'' @ dq ''mappings'' @ '': 5}''"

definition other_text :: string where
  "other_text = ''{'' @ dq ''other'' @ '': 1}''"

definition sample_text :: string where
  "sample_text =
     ''{\<newline>  '' @ dq ''mappings'' @ '': {\<newline>    '' @ dq ''google'' @ '': '' @ dq ''g-id''
       @ ''\<newline>  }\<newline>}''"

definition sample_loads :: "string \<Rightarrow> pyval option" where
  "sample_loads s =
     (if s = array_text then Some (PList [])
      else if s = number_text then Some (PDict [(''mappings'', PInt 5)])
      else if s = other_text then Some (PDict [(''other'', PInt 1)])
      else if s = sample_text then Some (PDict [(''mappings'', sample_table)])
      else None)"

definition sample_dumps :: "pyval \<Rightarrow> string" where
  "sample_dumps v = (if v = PDict [(''mappings'', sample_table)] then sample_text else [])"

definition sample_world :: world where
  "sample_world =
     \<lparr>heap = (\<lambda>a. PNone)(0 := sample_table), next_addr = 1, files = Map.empty,
      stat_faults = (\<lambda>p. False), write_faults = Map.empty, logged = []\<rparr>"

definition sample_config :: AgentCredentialConfig where
  "sample_config = \<lparr>agent_path = sample_path, mappings = 0\<rparr>"








subsection \<open>Facts about the Python operations\<close>

lemma py_get_non_dict: "\<not> is_dict v \<Longrightarrow> py_get v k dflt = Inl AttributeError"
  by (cases v) simp_all

lemma map_of_str_value:
  "list_all (\<lambda>kv. is_str (snd kv)) d \<Longrightarrow> map_of d k = Some v \<Longrightarrow> v \<noteq> PNone"
proof (induction d)
  case Nil
  then show ?case by simp
next
  case (Cons x d)
  then show ?case by (cases x) (auto split: if_splits)
qed

lemma sample_file_eq: "joinpath sample_path CONFIG_FILENAME = sample_file"
  by (simp add: joinpath_def sample_path_def sample_file_def CONFIG_FILENAME_def)

lemma sample_cell: "heap sample_world (mappings sample_config) = PDict [(''google'', PStr ''g-id'')]"
  by (simp add: sample_world_def sample_config_def sample_table_def)


subsection \<open>Facts about the encoding of strings\<close>

lemma utf8_decode_char:
  assumes "c < 0x110000"
  shows "utf8_decode (utf8_char c @ bs) = c # utf8_decode bs"
proof -
  consider (one) "c < 0x80" | (two) "0x80 \<le> c" "c < 0x800"
    | (three) "0x800 \<le> c" "c < 0x10000" | (four) "0x10000 \<le> c"
    by linarith
  then show ?thesis
  proof cases
    case one
    then have "c mod 256 = c" by simp
    with one show ?thesis by (simp add: utf8_char_def utf8_len_def)
  next
    case two
    define a where "a = c div 64"
    define b where "b = c mod 64"
    have c: "c = a * 64 + b" by (simp add: a_def b_def)
    have a: "a < 32" "2 \<le> a" using two by (simp_all add: a_def) 
    have b: "b < 64" by (simp add: b_def)
    have m: "(192 + a) mod 256 = 192 + a" "(128 + b) mod 256 = 128 + b"
      using a b by simp_all
    have u: "utf8_char c = [char_of (192 + a), char_of (128 + b)]"
      using two by (simp add: utf8_char_def a_def b_def)
    have "utf8_decode (utf8_char c @ bs) = (a * 64 + b) # utf8_decode bs"
      using a b by (simp add: u m utf8_len_def)
    with c show ?thesis by simp
  next
    case three
    define a where "a = c div 4096"
    define b where "b = c div 64 mod 64"
    define d where "d = c mod 64"
    have d1: "c div 4096 = c div 64 div 64" using div_mult2_eq [of c 64 64] by simp
    have "c div 64 = a * 64 + b" by (simp add: a_def b_def d1)
    then have c: "c = a * 4096 + b * 64 + d"
      using div_mult_mod_eq [of c 64] by (simp add: d_def)
    have a: "a < 16" using three by (simp add: a_def)
    have b: "b < 64" "d < 64" by (simp_all add: b_def d_def)
    have m: "(224 + a) mod 256 = 224 + a" "(128 + b) mod 256 = 128 + b"
      "(128 + d) mod 256 = 128 + d"
      using a b by simp_all
    have u: "utf8_char c = [char_of (224 + a), char_of (128 + b), char_of (128 + d)]"
      using three by (simp add: utf8_char_def a_def b_def d_def)
    have "utf8_decode (utf8_char c @ bs) = (a * 4096 + b * 64 + d) # utf8_decode bs"
      using a b by (simp add: u m utf8_len_def)
    with c show ?thesis by simp
  next
    case four
    define a where "a = c div 262144"
    define b where "b = c div 4096 mod 64"
    define d where "d = c div 64 mod 64"
    define e where "e = c mod 64"
    have d1: "c div 4096 = c div 64 div 64" using div_mult2_eq [of c 64 64] by simp
    have d2: "c div 262144 = c div 4096 div 64" using div_mult2_eq [of c 4096 64] by simp
    have "c div 4096 = a * 64 + b" by (simp add: a_def b_def d2)
    moreover have "c div 64 = c div 4096 * 64 + d"
      by (simp add: d_def d1)
    ultimately have c: "c = a * 262144 + b * 4096 + d * 64 + e"
      using div_mult_mod_eq [of c 64] by (simp add: e_def)
    have a: "a < 8" using assms by (simp add: a_def)
    have b: "b < 64" "d < 64" "e < 64" by (simp_all add: b_def d_def e_def)
    have m: "(240 + a) mod 256 = 240 + a" "(128 + b) mod 256 = 128 + b"
      "(128 + d) mod 256 = 128 + d" "(128 + e) mod 256 = 128 + e"
      using a b by simp_all
    have u: "utf8_char c
         = [char_of (240 + a), char_of (128 + b), char_of (128 + d), char_of (128 + e)]"
      using four by (simp add: utf8_char_def a_def b_def d_def e_def)
    have "utf8_decode (utf8_char c @ bs) = (a * 262144 + b * 4096 + d * 64 + e) # utf8_decode bs"
      using a b by (simp add: u m utf8_len_def)
    with c show ?thesis by simp
  qed
qed

lemma utf8_decode_encode:
  "list_all (\<lambda>c. c < 0x110000) cs \<Longrightarrow> utf8_decode (utf8_encode cs) = cs"
  by (induction cs) (simp_all add: utf8_encode_def utf8_decode_char del: utf8_decode.simps(2))

lemma is_pystr_encode: "list_all (\<lambda>c. c < 0x110000) cs \<Longrightarrow> is_pystr (utf8_encode cs)"
  by (simp add: is_pystr_def utf8_decode_encode)

lemma is_pystr_iff:
  "is_pystr s \<longleftrightarrow> (\<exists>cs. list_all (\<lambda>c. c < 0x110000) cs \<and> s = utf8_encode cs)"
proof
  assume "is_pystr s"
  then have "list_all (\<lambda>c. c < 0x110000) (utf8_decode s) \<and> s = utf8_encode (utf8_decode s)"
    by (simp add: is_pystr_def)
  then show "\<exists>cs. list_all (\<lambda>c. c < 0x110000) cs \<and> s = utf8_encode cs" ..
next
  assume "\<exists>cs. list_all (\<lambda>c. c < 0x110000) cs \<and> s = utf8_encode cs"
  then show "is_pystr s" by (auto simp: is_pystr_encode)
qed

subsection \<open>Facts about the \<^verbatim>\<open>json\<close> module\<close>




lemma length_hex4: "length (hex4 n) = 4"
  by (simp add: hex4_def)















lemma dumps_members_quote:
  "d \<noteq> [] \<Longrightarrow> dumps_members lv d = CHR 0x22 # tl (dumps_members lv d)"
  by (cases d) (auto simp: encode_basestring_ascii_def)



















subsection \<open>Loading\<close>

text \<open>
  C1. The claim is that \<^verbatim>\<open>load\<close> never raises, whatever \<^verbatim>\<open>credentials.json\<close> holds.
  The code does raise: when the file holds a valid JSON value that is not an object (an
  array, a number, a string, \<^verbatim>\<open>null\<close>, a boolean), \<^verbatim>\<open>data.get\<close> fails with
  \<^verbatim>\<open>AttributeError\<close>, which the \<^verbatim>\<open>except\<close> clause does not catch; the exception
  reaches the caller, nothing is logged and no instance is built.
\<close>

theorem load_non_object_raises:
  assumes "files w (joinpath p CONFIG_FILENAME) = Some (Regular s)"
    and "json_loads s = Some v"
    and "\<not> is_dict v"
  shows "load json_loads w p = (Inl AttributeError, w)"
  using assms
  by (simp add: load_def load_try_def path_exists_def read_text_def py_get_non_dict)

theorem load_non_object_raises_witness:
  "files (sample_world\<lparr>files := [sample_file \<mapsto> Regular array_text]\<rparr>)
       (joinpath sample_path CONFIG_FILENAME) = Some (Regular array_text)
   \<and> sample_loads array_text = Some (PList [])
   \<and> \<not> is_dict (PList [])
   \<and> load sample_loads (sample_world\<lparr>files := [sample_file \<mapsto> Regular array_text]\<rparr>)
         sample_path
       = (Inl AttributeError, sample_world\<lparr>files := [sample_file \<mapsto> Regular array_text]\<rparr>)"
proof -
  let ?w = "sample_world\<lparr>files := [sample_file \<mapsto> Regular array_text]\<rparr>"
  have h1: "files ?w (joinpath sample_path CONFIG_FILENAME) = Some (Regular array_text)"
    by (simp add: sample_file_eq)
  have h2: "sample_loads array_text = Some (PList [])"
    by (simp add: sample_loads_def)
  have h3: "\<not> is_dict (PList [])"
    by simp
  from load_non_object_raises [where json_loads = sample_loads, OF h1 h2 h3] h1 h2 h3
  show ?thesis by simp
qed

text \<open>
  The same exception path is taken by a file whose bytes do not decode as text:
  \<^verbatim>\<open>UnicodeDecodeError\<close> is neither a \<^verbatim>\<open>JSONDecodeError\<close> nor an \<^verbatim>\<open>OSError\<close>.
\<close>

lemma load_undecodable_raises:
  assumes "files w (joinpath p CONFIG_FILENAME) = Some Undecodable"
  shows "load json_loads w p = (Inl UnicodeDecodeError, w)"
  using assms by (simp add: load_def load_try_def path_exists_def read_text_def)

text \<open>
  What the \<^verbatim>\<open>except\<close> clause does cover: a file that exists and cannot be read, and a
  text that is not JSON, give an instance with an empty dictionary and one warning.
\<close>

lemma load_corrupt_file:
  assumes "files w (joinpath p CONFIG_FILENAME) = Some Unreadable
           \<or> (\<exists>s. files w (joinpath p CONFIG_FILENAME) = Some (Regular s) \<and> json_loads s = None)"
  shows "\<exists>c w' e. load json_loads w p = (Inr c, w') \<and> agent_path c = p
           \<and> heap w' (mappings c) = PDict []
           \<and> logged w' = logged w @ [(WARNING, FailedToLoad e)]"
  using assms
  by (auto simp: load_def load_try_def path_exists_def read_text_def new_config_def alloc_def
      log_msg_def)

text \<open>
  C2. The claim is that a file that parses as JSON gives the value of its \<open>mappings\<close>
  key when that is a table of strings, and the empty table when the key is absent or its
  value is not a table. The code takes the value of the key as it is: when the document
  is an object with a \<open>mappings\<close> entry, the instance refers to that entry's value,
  whatever its type. For the document whose entry is the number 5 the instance holds 5,
  not an empty table, and its lookups raise \<^verbatim>\<open>AttributeError\<close>.
\<close>

theorem load_keeps_mappings_value:
  assumes "files w (joinpath p CONFIG_FILENAME) = Some (Regular s)"
    and "json_loads s = Some (PDict d)"
    and "map_of d ''mappings'' = Some v"
  shows "\<exists>c w'. load json_loads w p = (Inr c, w') \<and> agent_path c = p
           \<and> heap w' (mappings c) = v"
  using assms
  by (simp add: load_def load_try_def path_exists_def read_text_def new_config_def alloc_def)

theorem load_keeps_mappings_value_witness:
  "files (sample_world\<lparr>files := [sample_file \<mapsto> Regular number_text]\<rparr>)
       (joinpath sample_path CONFIG_FILENAME) = Some (Regular number_text)
   \<and> sample_loads number_text = Some (PDict [(''mappings'', PInt 5)])
   \<and> map_of [(''mappings'', PInt 5)] ''mappings'' = Some (PInt 5)
   \<and> (\<exists>c w'. load sample_loads (sample_world\<lparr>files := [sample_file \<mapsto> Regular number_text]\<rparr>)
                 sample_path = (Inr c, w')
          \<and> agent_path c = sample_path
          \<and> heap w' (mappings c) = PInt 5
          \<and> heap w' (mappings c) \<noteq> PDict []
          \<and> fst (get_integration_id w' c ''google'') = Inl AttributeError)"
proof -
  let ?w = "sample_world\<lparr>files := [sample_file \<mapsto> Regular number_text]\<rparr>"
  have h1: "files ?w (joinpath sample_path CONFIG_FILENAME) = Some (Regular number_text)"
    by (simp add: sample_file_eq)
  have h2: "sample_loads number_text = Some (PDict [(''mappings'', PInt 5)])"
    by (simp add: sample_loads_def number_text_def array_text_def dq_def)
  have h3: "map_of [(''mappings'', PInt 5)] ''mappings'' = Some (PInt 5)"
    by simp
  from load_keeps_mappings_value [where json_loads = sample_loads, OF h1 h2 h3]
  obtain c w' where "load sample_loads ?w sample_path = (Inr c, w')"
    and "agent_path c = sample_path" and "heap w' (mappings c) = PInt 5"
    by blast
  with h1 h2 h3 show ?thesis
    by (simp add: get_integration_id_def)
qed

text \<open>
  When the existence check finds no file, \<^verbatim>\<open>load\<close> returns an instance for that
  directory whose dictionary is empty; it raises nothing, writes no file and logs
  nothing.
\<close>

lemma load_file_not_found:
  assumes "files w (joinpath p CONFIG_FILENAME) = None"
    and "\<not> stat_faults w (joinpath p CONFIG_FILENAME)"
  shows "\<exists>c w'. load json_loads w p = (Inr c, w') \<and> agent_path c = p
           \<and> heap w' (mappings c) = PDict []
           \<and> files w' = files w \<and> logged w' = logged w"
  using assms
  by (simp add: load_def path_exists_def new_config_def alloc_def)

text \<open>
  When the file is there and cannot be examined, the existence check itself raises:
  \<^verbatim>\<open>load\<close> passes the \<^verbatim>\<open>OSError\<close> on and changes nothing.
\<close>

lemma load_inaccessible_raises:
  assumes "files w (joinpath p CONFIG_FILENAME) = Some Inaccessible"
  shows "load json_loads w p = (Inl OSError, w)"
  using assms by (simp add: load_def path_exists_def)

text \<open>
  C6. The claim is that \<^verbatim>\<open>load\<close> returns an empty instance and raises nothing
  whenever the directory holds no \<^verbatim>\<open>credentials.json\<close>. The code does raise in some
  of these states: the call of \<^verbatim>\<open>exists()\<close> stands before the \<^verbatim>\<open>try\<close>, so when no
  such file is there and \<^verbatim>\<open>stat\<close> fails for another reason than a missing entry (the
  directory cannot be searched, the name is too long), the \<^verbatim>\<open>OSError\<close> reaches the
  caller and no instance is built. The same class of error is caught when it comes from
  reading the file.
\<close>

theorem load_missing_file_stat_fault:
  assumes "files w (joinpath p CONFIG_FILENAME) = None"
    and "stat_faults w (joinpath p CONFIG_FILENAME)"
  shows "load json_loads w p = (Inl OSError, w)"
  using assms by (simp add: load_def path_exists_def)

theorem load_missing_file_stat_fault_witness:
  "files (sample_world\<lparr>stat_faults := (\<lambda>q. q = sample_file)\<rparr>)
       (joinpath sample_path CONFIG_FILENAME) = None
   \<and> stat_faults (sample_world\<lparr>stat_faults := (\<lambda>q. q = sample_file)\<rparr>)
        (joinpath sample_path CONFIG_FILENAME)
   \<and> load sample_loads (sample_world\<lparr>stat_faults := (\<lambda>q. q = sample_file)\<rparr>) sample_path
       = (Inl OSError, sample_world\<lparr>stat_faults := (\<lambda>q. q = sample_file)\<rparr>)"
proof -
  let ?w = "sample_world\<lparr>stat_faults := (\<lambda>q. q = sample_file)\<rparr>"
  have h1: "files ?w (joinpath sample_path CONFIG_FILENAME) = None"
    by (simp add: sample_world_def)
  have h2: "stat_faults ?w (joinpath sample_path CONFIG_FILENAME)"
    by (simp add: sample_file_eq)
  from load_missing_file_stat_fault [where json_loads = sample_loads, OF h1 h2] h1 h2
  show ?thesis by simp
qed

subsection \<open>Saving\<close>

text \<open>
  C4. When the write succeeds, \<^verbatim>\<open>save\<close> leaves at \<^verbatim>\<open><agent_path>/credentials.json\<close>
  exactly the indented serialization of the dictionary with the single key \<open>mappings\<close>
  bound to the instance's table. The new content does not depend on what the file held
  before, so every other top-level key is gone; no other file changes, and the object
  store is as before.
\<close>

theorem save_writes_document:
  assumes "write_faults w (joinpath (agent_path c) CONFIG_FILENAME) = None"
  shows "\<exists>w'. save json_dumps w c = (Inr (), w')
           \<and> files w' = (files w)(joinpath (agent_path c) CONFIG_FILENAME \<mapsto>
                 Regular (json_dumps (PDict [(''mappings'', heap w (mappings c))])))
           \<and> heap w' = heap w"
  using assms by (simp add: save_def write_text_def log_msg_def Let_def)

theorem save_writes_document_witness:
  "write_faults (sample_world\<lparr>files := [sample_file \<mapsto> Regular other_text]\<rparr>)
       (joinpath (agent_path sample_config) CONFIG_FILENAME) = None
   \<and> (\<exists>w'. save sample_dumps (sample_world\<lparr>files := [sample_file \<mapsto> Regular other_text]\<rparr>)
              sample_config = (Inr (), w')
          \<and> files w' = [sample_file \<mapsto> Regular sample_text])"
proof -
  let ?w = "sample_world\<lparr>files := [sample_file \<mapsto> Regular other_text]\<rparr>"
  have h: "write_faults ?w (joinpath (agent_path sample_config) CONFIG_FILENAME) = None"
    by (simp add: sample_world_def)
  have cp: "joinpath (agent_path sample_config) CONFIG_FILENAME = sample_file"
    by (simp add: sample_config_def sample_file_eq)
  have doc: "sample_dumps (PDict [(''mappings'', heap ?w (mappings sample_config))])
               = sample_text"
    by (simp add: sample_dumps_def sample_world_def sample_config_def)
  from save_writes_document [OF h, of sample_dumps] obtain w'
    where "save sample_dumps ?w sample_config = (Inr (), w')"
      and "files w' = (files ?w)(joinpath (agent_path sample_config) CONFIG_FILENAME \<mapsto>
             Regular (sample_dumps (PDict [(''mappings'', heap ?w (mappings sample_config))])))"
    by blast
  with h cp doc show ?thesis by simp
qed

text \<open>
  C5. When the write fails, at \<^verbatim>\<open>open\<close> or after part of the text was written,
  \<^verbatim>\<open>save\<close> logs one error record and then raises the \<^verbatim>\<open>OSError\<close> to its caller.
  The object store is unchanged, so the instance has the directory and the table it had
  before the call.
\<close>

theorem save_failure_propagates:
  assumes "write_faults w (joinpath (agent_path c) CONFIG_FILENAME) = Some f"
  shows "\<exists>w'. save json_dumps w c = (Inl OSError, w')
           \<and> heap w' = heap w \<and> next_addr w' = next_addr w
           \<and> logged w' = logged w @ [(ERROR, FailedToSave OSError)]"
  using assms by (cases f) (simp_all add: save_def write_text_def log_msg_def Let_def)

theorem save_failure_propagates_witness:
  "write_faults (sample_world\<lparr>write_faults := [sample_file \<mapsto> WriteFails 3]\<rparr>)
       (joinpath (agent_path sample_config) CONFIG_FILENAME) = Some (WriteFails 3)
   \<and> (\<exists>w'. save sample_dumps (sample_world\<lparr>write_faults := [sample_file \<mapsto> WriteFails 3]\<rparr>)
              sample_config = (Inl OSError, w')
          \<and> heap w' = heap sample_world \<and> next_addr w' = next_addr sample_world
          \<and> logged w' = [(ERROR, FailedToSave OSError)])"
proof -
  let ?w = "sample_world\<lparr>write_faults := [sample_file \<mapsto> WriteFails 3]\<rparr>"
  have h: "write_faults ?w (joinpath (agent_path sample_config) CONFIG_FILENAME)
             = Some (WriteFails 3)"
    by (simp add: sample_config_def sample_file_eq)
  have l: "logged ?w = []"
    by (simp add: sample_world_def)
  from save_failure_propagates [OF h, of sample_dumps] h l
  show ?thesis by simp
qed





subsection \<open>The dictionary methods\<close>

text \<open>
  The field \<^verbatim>\<open>mappings\<close> is declared \<^verbatim>\<open>dict[str, str]\<close>. The theorems below are
  about instances whose field holds a dictionary; the last one needs its values to be
  strings as well.
\<close>

text \<open>
  C7. \<^verbatim>\<open>remove_integration(provider)\<close> returns true exactly when the provider was a
  key of the table before the call, which is what \<^verbatim>\<open>has_mapping\<close> answered then.
  After a call that returned true, \<^verbatim>\<open>get_integration_id(provider)\<close> returns
  \<^verbatim>\<open>None\<close> and a second \<^verbatim>\<open>remove_integration(provider)\<close> returns false.
\<close>

theorem remove_integration_result:
  assumes "heap w (mappings c) = PDict d"
  shows "\<exists>b w'. remove_integration w c p = (Inr b, w')
           \<and> has_mapping w c p = (Inr b, w)
           \<and> (b \<longleftrightarrow> p \<in> fst ` set d)
           \<and> (b \<longrightarrow> fst (get_integration_id w' c p) = Inr PNone
                  \<and> fst (remove_integration w' c p) = Inr False)"
proof (cases "p \<in> fst ` set d")
  case True
  have gone: "p \<notin> fst ` set (AList.delete p d)"
    by (simp add: delete_notin_dom)
  then have "map_of (AList.delete p d) p = None"
    by (simp add: map_of_eq_None_iff)
  with True gone assms show ?thesis
    by (auto simp: remove_integration_def has_mapping_def get_integration_id_def)
next
  case False
  with assms show ?thesis
    by (auto simp: remove_integration_def has_mapping_def)
qed

theorem remove_integration_result_witness:
  "heap sample_world (mappings sample_config) = PDict [(''google'', PStr ''g-id'')]
   \<and> (\<exists>b w'. remove_integration sample_world sample_config ''google'' = (Inr b, w')
          \<and> has_mapping sample_world sample_config ''google'' = (Inr b, sample_world)
          \<and> b
          \<and> fst (get_integration_id w' sample_config ''google'') = Inr PNone
          \<and> fst (remove_integration w' sample_config ''google'') = Inr False)"
proof -
  from remove_integration_result [OF sample_cell, of "''google''"] obtain b w'
    where r: "remove_integration sample_world sample_config ''google'' = (Inr b, w')"
      and h: "has_mapping sample_world sample_config ''google'' = (Inr b, sample_world)"
      and b: "b \<longleftrightarrow> ''google'' \<in> fst ` set [(''google'', PStr ''g-id'')]"
      and a: "b \<longrightarrow> fst (get_integration_id w' sample_config ''google'') = Inr PNone
                  \<and> fst (remove_integration w' sample_config ''google'') = Inr False"
    by blast
  from b have "b" by simp
  with r h a sample_cell show ?thesis by auto
qed

text \<open>
  C8. For an instance whose dictionary was allocated earlier, \<^verbatim>\<open>list_mappings\<close>
  returns a new object, at an address other than that of the instance's dictionary,
  holding an equal table. Whatever is later stored at the returned address, the
  instance's dictionary is the one it was, and so is every \<^verbatim>\<open>get_integration_id\<close>
  result.
\<close>

theorem list_mappings_copy:
  assumes "heap w (mappings c) = PDict d"
    and "mappings c < next_addr w"
  shows "\<exists>r w'. list_mappings w c = (Inr r, w')
           \<and> heap w' r = PDict d
           \<and> r \<noteq> mappings c
           \<and> (\<forall>v. heap (w'\<lparr>heap := (heap w')(r := v)\<rparr>) (mappings c) = PDict d)
           \<and> (\<forall>v p. fst (get_integration_id (w'\<lparr>heap := (heap w')(r := v)\<rparr>) c p)
                     = fst (get_integration_id w c p))"
  using assms by (simp add: list_mappings_def alloc_def get_integration_id_def)

theorem list_mappings_copy_witness:
  "heap sample_world (mappings sample_config) = PDict [(''google'', PStr ''g-id'')]
   \<and> mappings sample_config < next_addr sample_world
   \<and> (\<exists>r w'. list_mappings sample_world sample_config = (Inr r, w')
          \<and> heap w' r = PDict [(''google'', PStr ''g-id'')]
          \<and> r \<noteq> mappings sample_config
          \<and> (\<forall>v. heap (w'\<lparr>heap := (heap w')(r := v)\<rparr>) (mappings sample_config)
                  = PDict [(''google'', PStr ''g-id'')])
          \<and> (\<forall>v p. fst (get_integration_id (w'\<lparr>heap := (heap w')(r := v)\<rparr>) sample_config p)
                    = fst (get_integration_id sample_world sample_config p)))"
proof -
  have h: "mappings sample_config < next_addr sample_world"
    by (simp add: sample_config_def sample_world_def)
  from list_mappings_copy [OF sample_cell h] sample_cell h
  show ?thesis by simp
qed

text \<open>
  C9. \<^verbatim>\<open>set_integration_id(provider, integration_id)\<close> makes
  \<^verbatim>\<open>get_integration_id(provider)\<close> return the new identifier, whether the provider
  was a key or not, leaves the result for every other provider as it was, and leaves
  every file as it was.
\<close>

theorem set_integration_id_result:
  assumes "heap w (mappings c) = PDict d"
  shows "\<exists>w'. set_integration_id w c p v = (Inr (), w')
           \<and> fst (get_integration_id w' c p) = Inr (PStr v)
           \<and> (\<forall>q. q \<noteq> p \<longrightarrow>
                  fst (get_integration_id w' c q) = fst (get_integration_id w c q))
           \<and> files w' = files w"
  using assms
  by (simp add: set_integration_id_def get_integration_id_def update_conv')

theorem set_integration_id_result_witness:
  "heap sample_world (mappings sample_config) = PDict [(''google'', PStr ''g-id'')]
   \<and> (\<exists>w'. set_integration_id sample_world sample_config ''hubspot'' ''h-id'' = (Inr (), w')
          \<and> fst (get_integration_id w' sample_config ''hubspot'') = Inr (PStr ''h-id'')
          \<and> fst (get_integration_id w' sample_config ''google'') = Inr (PStr ''g-id'')
          \<and> files w' = files sample_world)"
proof -
  have g: "fst (get_integration_id sample_world sample_config ''google'') = Inr (PStr ''g-id'')"
    by (simp add: get_integration_id_def sample_cell)
  from set_integration_id_result [OF sample_cell, of "''hubspot''" "''h-id''"] obtain w'
    where "set_integration_id sample_world sample_config ''hubspot'' ''h-id'' = (Inr (), w')"
      and "fst (get_integration_id w' sample_config ''hubspot'') = Inr (PStr ''h-id'')"
      and "\<forall>q. q \<noteq> ''hubspot'' \<longrightarrow> fst (get_integration_id w' sample_config q)
             = fst (get_integration_id sample_world sample_config q)"
      and "files w' = files sample_world"
    by blast
  with g sample_cell show ?thesis by simp
qed

text \<open>
  C10. For an instance whose table maps strings to strings, \<^verbatim>\<open>has_mapping(provider)\<close>
  is true exactly when \<^verbatim>\<open>get_integration_id(provider)\<close> is not \<^verbatim>\<open>None\<close>, and both
  calls return the state they were given.
\<close>

theorem has_mapping_iff_get:
  assumes "is_str_dict (heap w (mappings c))"
  shows "\<exists>b v. has_mapping w c p = (Inr b, w)
           \<and> get_integration_id w c p = (Inr v, w)
           \<and> (b \<longleftrightarrow> v \<noteq> PNone)"
proof -
  from assms obtain d where d: "heap w (mappings c) = PDict d"
    and strs: "list_all (\<lambda>kv. is_str (snd kv)) d"
    by (cases "heap w (mappings c)") simp_all
  show ?thesis
  proof (cases "map_of d p")
    case None
    then have "p \<notin> fst ` set d" by (simp add: map_of_eq_None_iff)
    with None d show ?thesis
      by (auto simp: has_mapping_def get_integration_id_def)
  next
    case (Some v)
    then have "p \<in> fst ` set d" by (metis map_of_eq_None_iff option.distinct(1))
    moreover from strs Some have "v \<noteq> PNone" by (rule map_of_str_value)
    ultimately show ?thesis using Some d
      by (auto simp: has_mapping_def get_integration_id_def)
  qed
qed

theorem has_mapping_iff_get_witness:
  "is_str_dict (heap sample_world (mappings sample_config))
   \<and> (\<exists>b v. has_mapping sample_world sample_config ''google'' = (Inr b, sample_world)
          \<and> get_integration_id sample_world sample_config ''google'' = (Inr v, sample_world)
          \<and> (b \<longleftrightarrow> v \<noteq> PNone))"
proof -
  have h: "is_str_dict (heap sample_world (mappings sample_config))"
    by (simp add: sample_cell)
  from has_mapping_iff_get [OF h, of "''google''"] h
  show ?thesis by simp
qed

text \<open>
  The hypothesis on the values cannot be dropped: in a table that binds a key to
  \<^verbatim>\<open>None\<close>, against the declared type, the key is present and its lookup returns
  \<^verbatim>\<open>None\<close>.
\<close>

lemma has_mapping_none_value:
  "has_mapping (sample_world\<lparr>heap := (\<lambda>a. PDict [(''google'', PNone)])\<rparr>) sample_config ''google''
     = (Inr True, sample_world\<lparr>heap := (\<lambda>a. PDict [(''google'', PNone)])\<rparr>)
   \<and> get_integration_id (sample_world\<lparr>heap := (\<lambda>a. PDict [(''google'', PNone)])\<rparr>)
         sample_config ''google''
     = (Inr PNone, sample_world\<lparr>heap := (\<lambda>a. PDict [(''google'', PNone)])\<rparr>)"
  by (simp add: has_mapping_def get_integration_id_def)

end
